theory Spec2Isabelle
  imports Main "HOL-Library.AList"
begin

section \<open>Values, rules and fields\<close>

text \<open>
  The class \<open>Form\<close> of \<open>src/index.ts\<close> keeps, for every field of a form, its initial
  snapshot, a touched flag and an error message, and validates field values against a
  required check and a list of rules.

  Field values are arbitrary JavaScript values (\<open>FieldSource<T>\<close> is generic in the value
  type). The embedding covers the primitives and plain containers; numbers are integers.
\<close>

datatype jsval =
    JUndefined
  | JNull
  | JBool bool
  | JNum int
  | JStr string
  | JArr "jsval list"
  | JObj "(string \<times> jsval) list"

text \<open>
  \<open>isEmpty\<close> is imported from the package \<open>lodash.isempty\<close> (line 1 of \<open>index.ts\<close>); the
  package is a dependency, not part of the repository. The equations follow the package:
  a nullish value is empty, a string or array is empty when its length is zero, and for any
  other value the function answers whether the value has no own enumerable property, which
  is the case for an object without keys and for every number and boolean (the package's
  documentation lists \<open>isEmpty(true)\<close> and \<open>isEmpty(1)\<close> as \<open>true\<close>).
\<close>

fun isEmpty :: "jsval \<Rightarrow> bool" where
  "isEmpty JUndefined = True"
| "isEmpty JNull = True"
| "isEmpty (JStr s) = (s = [])"
| "isEmpty (JArr xs) = (xs = [])"
| "isEmpty (JObj ps) = (ps = [])"
| "isEmpty (JBool b) = True"
| "isEmpty (JNum n) = True"

text \<open>The enumeration \<open>ERROR_TYPE\<close>.\<close>

definition KEY_NOT_EXISTS :: string where
  "KEY_NOT_EXISTS = ''Key should exists.''"

definition VALUE_NOT_REQUIRED :: string where
  "VALUE_NOT_REQUIRED = ''Value should be required.''"

definition VALUE_NOT_VALID :: string where
  "VALUE_NOT_VALID = ''Value is not valid.''"

text \<open>
  A \<open>Validation\<close> is a \<open>RegExp\<close> or a function returning the pair
  \<open>[boolean, CustomErrorMessage | undefined]\<close> (directly or through a promise, which
  \<open>validateField\<close> awaits). A regular expression is represented by its \<open>test\<close> method, a
  predicate on the value; rules are pure functions of the value.
\<close>

datatype rule =
    RegExp "jsval \<Rightarrow> bool"
  | Func "jsval \<Rightarrow> bool \<times> string option"

text \<open>The interface \<open>FieldSource\<close>; \<open>val\<close> is its attribute \<open>value\<close>.\<close>

record FieldSource =
  key :: string
  label :: string
  val :: jsval
  isRequired :: bool
  requiredMessage :: "string option"
  validation :: "rule list"

text \<open>
  The two JavaScript operators that choose between a message and its default:
  \<open>a ?? b\<close> is \<open>b\<close> only when \<open>a\<close> is \<open>undefined\<close>, \<open>a || b\<close> is \<open>b\<close> whenever \<open>a\<close> is
  falsy, which for a message means \<open>undefined\<close> or the empty string.
\<close>

definition nullish_or :: "'a option \<Rightarrow> 'a \<Rightarrow> 'a" where
  "nullish_or a b = (case a of None \<Rightarrow> b | Some x \<Rightarrow> x)"

definition falsy_or :: "string option \<Rightarrow> string \<Rightarrow> string" where
  "falsy_or a b = (case a of None \<Rightarrow> b | Some s \<Rightarrow> if s = [] then b else s)"

section \<open>The validation of one field\<close>

text \<open>
  The loop \<open>for (const v of target.validation)\<close> of \<open>validateField\<close>. The first component
  of the result is the value the loop assigns to \<open>this._errors[key]\<close> when it returns
  early, or \<open>None\<close> (that is \<open>undefined\<close>, assigned after the loop) when it runs to its
  end; the second lists the rules the loop has called, in the order of the calls.
\<close>

fun run_rules :: "rule list \<Rightarrow> jsval \<Rightarrow> string option \<times> rule list" where
  "run_rules [] x = (None, [])"
| "run_rules (Func g # vs) x =
     (if \<not> fst (g x) then (Some (falsy_or (snd (g x)) VALUE_NOT_VALID), [Func g])
      else (fst (run_rules vs x), Func g # snd (run_rules vs x)))"
| "run_rules (RegExp p # vs) x =
     (if \<not> p x then (Some VALUE_NOT_VALID, [RegExp p])
      else (fst (run_rules vs x), RegExp p # snd (run_rules vs x)))"

text \<open>
  The body of \<open>validateField\<close> for a given target: the error it stores and the rules it
  calls on the way.
\<close>

definition check_target :: "FieldSource \<Rightarrow> string option \<times> rule list" where
  "check_target target =
     (if isRequired target \<and> isEmpty (val target)
      then (Some (nullish_or (requiredMessage target) VALUE_NOT_REQUIRED), [])
      else if validation target \<noteq> [] then run_rules (validation target) (val target)
      else (None, []))"

text \<open>Whether a rule accepts a value, and the message it leaves when it does not.\<close>

fun rule_passes :: "rule \<Rightarrow> jsval \<Rightarrow> bool" where
  "rule_passes (RegExp p) x = p x"
| "rule_passes (Func g) x = fst (g x)"

fun rule_message :: "rule \<Rightarrow> jsval \<Rightarrow> string" where
  "rule_message (RegExp p) x = VALUE_NOT_VALID"
| "rule_message (Func g) x = falsy_or (snd (g x)) VALUE_NOT_VALID"


section \<open>The form\<close>

text \<open>
  A property of the instance that carries no field. A subclass has members besides its
  fields (the class \<open>PersonForm\<close> of the README has the array \<open>favoriteBooks\<close> and the
  method \<open>clearBooks\<close>): \<open>Method\<close> is a method as the class declares it (an ordinary
  writable property of the prototype), \<open>Other\<close> a value of another kind, \<open>Undef\<close> the
  value \<open>undefined\<close>, and \<open>Spread m v\<close> the object \<open>{...m, value: v}\<close> that \<open>update\<close>
  stores in place of the member \<open>m\<close>. These members are taken to have no attribute
  \<open>isRequired\<close> or \<open>validation\<close> (a method, an array, a list of forms), so that the
  object \<open>Spread m v\<close> has none either.
\<close>

datatype member = Method | Other | Undef | Spread member jsval

text \<open>
  The state of a \<open>Form\<close> instance. \<open>initialValues\<close>, \<open>touched\<close> and \<open>errors\<close> are the
  objects \<open>_initialValues\<close>, \<open>_touched\<close> and \<open>_errors\<close>, as association lists in the order
  their keys were first written; in \<open>errors\<close> a key bound to \<open>None\<close> is a key whose entry is
  \<open>undefined\<close>. \<open>keys\<close> is the array of registered keys and \<open>uniqueId\<close> the member
  \<open>__identifier\<close>. \<open>props\<close> holds the properties of the instance that carry a field
  (\<open>this[key]\<close>), which a subclass creates by assigning the result of \<open>generateField\<close>
  and which \<open>update\<close>, \<open>reset\<close> and \<open>clear\<close> replace; \<open>others\<close> holds the further
  members of the subclass.

  \<open>validateField\<close> is an \<open>async\<close> function, and \<open>update\<close>, \<open>clear\<close> and
  \<open>generateField\<close> call it without awaiting the promise. \<open>inFlight\<close> holds the calls that
  have reached their first \<open>await\<close> (line 229) and have not completed: the key and the
  target of each, in the order in which they were started. The target is the object the
  call read at its start; no operation of the class changes that object afterwards
  (\<open>update\<close> stores a new object). The observation of the state by MobX is not part of
  the model.
\<close>

record form =
  initialValues :: "(string \<times> FieldSource) list"
  touched :: "(string \<times> bool) list"
  errors :: "(string \<times> string option) list"
  uniqueId :: string
  keys :: "string list"
  props :: "(string \<times> FieldSource) list"
  others :: "(string \<times> member) list"
  inFlight :: "(string \<times> FieldSource) list"

text \<open>The constructor; the identifier comes from \<open>getUniqueId\<close>, a random string.\<close>

definition new_form :: "string \<Rightarrow> form" where
  "new_form uid =
     \<lparr>initialValues = [], touched = [], errors = [], uniqueId = uid, keys = [], props = [],
      others = [], inFlight = []\<rparr>"

text \<open>
  What a call can throw: the \<open>Error\<close> of \<open>generateField\<close>; the \<open>TypeError\<close> of the
  runtime when a property of \<open>undefined\<close> is read or a property that has a getter and no
  setter is assigned; and the \<open>Error\<close> that MobX throws when a property it has made
  \<open>computed\<close> is assigned (\<open>ComputedError\<close> with the name of the property; its message is
  the library's).
\<close>

datatype exn = Error string | TypeError | ComputedError string

text \<open>
  How a call ends: it returns, leaving a state; it throws (a promise is rejected), leaving
  a state; or it replaces, or reads as a field, a member of the \<open>Form\<close> object itself
  other than a getter (such as \<open>keys\<close>, \<open>_errors\<close> or \<open>setTouched\<close>). The call goes on
  after that, but what it and every later call do then depends on the object now stored
  in place of the array, the map or the method, and on how MobX has defined the member;
  the record does not describe such an instance, so the model ends there, names the
  member, and gives no state.
\<close>

datatype outcome = Returns form | Throws exn form | Escapes string

fun final :: "outcome \<Rightarrow> form option" where
  "final (Returns f) = Some f"
| "final (Throws e f) = Some f"
| "final (Escapes k) = None"

text \<open>
  The names for which \<open>key in this\<close> holds on every instance, whatever the subclass adds:
  the properties the constructor creates, the members of \<open>Form.prototype\<close>, and the members
  of \<open>Object.prototype\<close>. The accessors among them have no setter: \<open>__id\<close> and
  \<open>initialValues\<close> are plain getters of the class, and \<open>errors\<close>, \<open>touched\<close> and
  \<open>isValid\<close> are made \<open>computed\<close> by \<open>makeObservable\<close>.
\<close>

definition plain_getters :: "string list" where
  "plain_getters = [''__id'', ''initialValues'']"

definition computed_getters :: "string list" where
  "computed_getters = [''errors'', ''touched'', ''isValid'']"

definition member_names :: "string list" where
  "member_names = plain_getters @ computed_getters @
     [''_initialValues'', ''_touched'', ''_errors'', ''__identifier'', ''keys'',
      ''constructor'', ''update'', ''clear'', ''reset'', ''untouch'', ''untouchAll'',
      ''validate'', ''generateField'', ''addKey'', ''setTouched'', ''setErrors'',
      ''validateField'', ''getUniqueId'',
      ''hasOwnProperty'', ''isPrototypeOf'', ''propertyIsEnumerable'', ''toLocaleString'',
      ''toString'', ''valueOf'', ''__proto__'', ''__defineGetter__'', ''__defineSetter__'',
      ''__lookupGetter__'', ''__lookupSetter__'']"

text \<open>
  \<open>key in this\<close>: the key names a field of the instance, another member of the subclass,
  or a member of \<open>Form\<close> itself.
\<close>

definition in_this :: "form \<Rightarrow> string \<Rightarrow> bool" where
  "in_this f k =
     (k \<in> fst ` set (props f) \<or> k \<in> fst ` set (others f) \<or> k \<in> set member_names)"

definition addKey :: "string \<Rightarrow> form \<Rightarrow> form" where
  "addKey k f = (if k \<in> set (keys f) then f else f\<lparr>keys := keys f @ [k]\<rparr>)"

definition setTouched :: "string \<Rightarrow> bool \<Rightarrow> form \<Rightarrow> form" where
  "setTouched k b f = f\<lparr>touched := AList.update k b (touched f)\<rparr>"

definition setErrors :: "string \<Rightarrow> string option \<Rightarrow> form \<Rightarrow> form" where
  "setErrors k e f = f\<lparr>errors := AList.update k e (errors f)\<rparr>"

text \<open>
  \<open>validateField(key, _target)\<close>, awaited: the call run to its completion, as \<open>validate\<close>
  runs it. The target is \<open>targ\<close> (the parameter \<open>_target\<close>) when it is given and
  \<open>this[key]\<close> otherwise. A target that is a field gets the error that \<open>check_target\<close>
  computes; a member without the attributes \<open>isRequired\<close> and \<open>validation\<close> passes both
  tests and gets \<open>undefined\<close>; when there is no target, reading \<open>target.isRequired\<close> fails
  with a \<open>TypeError\<close>, which rejects the promise, and nothing is stored. (For a key that
  names a member of \<open>Form\<close> itself and no target, the callers in this model do not come
  here.) Validations in flight stay in flight; they complete by \<open>complete\<close>.
\<close>

definition validateField :: "string \<Rightarrow> FieldSource option \<Rightarrow> form \<Rightarrow> exn option \<times> form" where
  "validateField k targ f =
     (case (case targ of Some t \<Rightarrow> Some t | None \<Rightarrow> map_of (props f) k) of
        None \<Rightarrow>
          (case map_of (others f) k of
             None \<Rightarrow> (Some TypeError, f)
           | Some Undef \<Rightarrow> (Some TypeError, f)
           | Some m \<Rightarrow> (None, f\<lparr>errors := AList.update k None (errors f)\<rparr>))
      | Some target \<Rightarrow>
          (None, f\<lparr>errors := AList.update k (fst (check_target target)) (errors f)\<rparr>))"

text \<open>
  \<open>validateField(key, _target)\<close>, not awaited: what the call has done when it returns its
  promise. The body runs up to its first \<open>await\<close>, which it reaches when it calls the
  first rule. When no rule is called (the required check fails, or there is no rule) the
  error is stored before the call returns; otherwise the call is in flight and has stored
  nothing yet. A rejected promise is dropped.
\<close>

definition begin_validateField :: "string \<Rightarrow> FieldSource option \<Rightarrow> form \<Rightarrow> form" where
  "begin_validateField k targ f =
     (case (case targ of Some t \<Rightarrow> Some t | None \<Rightarrow> map_of (props f) k) of
        None \<Rightarrow>
          (case map_of (others f) k of
             None \<Rightarrow> f
           | Some Undef \<Rightarrow> f
           | Some m \<Rightarrow> setErrors k None f)
      | Some target \<Rightarrow>
          (case snd (check_target target) of
             [] \<Rightarrow> setErrors k (fst (check_target target)) f
           | r # rs \<Rightarrow> f\<lparr>inFlight := inFlight f @ [(k, target)]\<rparr>))"

text \<open>
  The completion of the validation at position \<open>i\<close> of \<open>inFlight\<close>: its remaining rules
  run, on the value of its target, and it stores the error under its key (lines 236, 242
  and 249). Validations complete in any order (a rule can be asynchronous), each at any
  moment at which no other code of the form runs; \<open>fold complete is f\<close> completes the
  validations at the positions \<open>is\<close>, one after the other.
\<close>

definition complete :: "nat \<Rightarrow> form \<Rightarrow> form" where
  "complete i f =
     (if i < length (inFlight f) then
        (case inFlight f ! i of
           (k, target) \<Rightarrow>
             setErrors k (fst (check_target target))
               (f\<lparr>inFlight := take i (inFlight f) @ drop (Suc i) (inFlight f)\<rparr>))
      else f)"

text \<open>The getter \<open>isValid\<close>: every value of \<open>_errors\<close> is \<open>undefined\<close>.\<close>

definition isValid :: "form \<Rightarrow> bool" where
  "isValid f = list_all (\<lambda>e. e = None) (map snd (errors f))"

section \<open>Registration\<close>

text \<open>
  The argument \<open>options\<close> of \<open>generateField\<close>, a \<open>Partial<FieldSource<T>>\<close>. An attribute
  the caller leaves out is \<open>None\<close>; a value that is left out reads as \<open>undefined\<close>.
\<close>

record options =
  opt_key :: "string option"
  opt_label :: "string option"
  opt_value :: jsval
  opt_isRequired :: "bool option"
  opt_requiredMessage :: "string option"
  opt_validation :: "rule list option"

definition FIELD_DEFAULT_VALUES :: FieldSource where
  "FIELD_DEFAULT_VALUES =
     \<lparr>key = [], label = [], val = JStr [], isRequired = False, requiredMessage = None,
      validation = []\<rparr>"

definition nullish :: "jsval \<Rightarrow> bool" where
  "nullish v = (v = JUndefined \<or> v = JNull)"

text \<open>
  \<open>generateField(options, withoutInitialValidation)\<close>. The first component of the result is
  the thrown error or the returned field, the second the state the call leaves behind. The
  field is \<open>{...Form.FIELD_DEFAULT_VALUES, ...options, value: options.value ?? ''}\<close>: each
  attribute is the one of \<open>options\<close> when it has one and the default otherwise. The
  initial validation is not awaited.
\<close>

definition generateField :: "options \<Rightarrow> bool \<Rightarrow> form \<Rightarrow> (exn + FieldSource) \<times> form" where
  "generateField options withoutInitialValidation f =
     (case opt_key options of
        None \<Rightarrow> (Inl (Error KEY_NOT_EXISTS), f)
      | Some k \<Rightarrow>
          if k = [] then (Inl (Error KEY_NOT_EXISTS), f)
          else
            (let f1 = addKey k f;
                 f2 = setTouched k False f1;
                 f3 = setErrors k None f2;
                 initialValue =
                   \<lparr>key = k,
                    label =
                      (case opt_label options of
                         None \<Rightarrow> label FIELD_DEFAULT_VALUES
                       | Some l \<Rightarrow> l),
                    val = (if nullish (opt_value options) then JStr [] else opt_value options),
                    isRequired =
                      (case opt_isRequired options of
                         None \<Rightarrow> isRequired FIELD_DEFAULT_VALUES
                       | Some b \<Rightarrow> b),
                    requiredMessage =
                      (case opt_requiredMessage options of
                         None \<Rightarrow> requiredMessage FIELD_DEFAULT_VALUES
                       | Some m \<Rightarrow> Some m),
                    validation =
                      (case opt_validation options of
                         None \<Rightarrow> validation FIELD_DEFAULT_VALUES
                       | Some vs \<Rightarrow> vs)\<rparr>;
                 f4 = f3\<lparr>initialValues := AList.update k initialValue (initialValues f3)\<rparr>;
                 f5 = (if \<not> withoutInitialValidation
                       then begin_validateField k (Some initialValue) f4 else f4)
             in (Inr initialValue, f5)))"

text \<open>
  The assignment \<open>this[key] = x\<close>, as \<open>Object.assign(this, {[key]: x})\<close> in \<open>update\<close>,
  \<open>reset\<close> and \<open>clear\<close> and as the statement \<open>this.name = fld\<close> by which the constructor
  of a subclass stores the field that \<open>generateField\<close> returned. For a plain getter it
  throws a \<open>TypeError\<close> and for a computed one MobX throws; any other member of \<open>Form\<close>
  itself is replaced, where the model ends; any other name becomes or stays a property of
  the instance, with the value \<open>x\<close>.
\<close>

definition assign :: "string \<Rightarrow> FieldSource + member \<Rightarrow> form \<Rightarrow> outcome" where
  "assign k x f =
     (if k \<in> set plain_getters then Throws TypeError f
      else if k \<in> set computed_getters then Throws (ComputedError k) f
      else if k \<in> set member_names then Escapes k
      else Returns
        (case x of
           Inl fld \<Rightarrow>
             f\<lparr>props := AList.update k fld (props f), others := AList.delete k (others f)\<rparr>
         | Inr m \<Rightarrow>
             f\<lparr>props := AList.delete k (props f), others := AList.update k m (others f)\<rparr>))"

section \<open>The operations\<close>

text \<open>
  A loop over a list (\<open>forEach\<close>, \<open>for ... of\<close>) whose body can throw: the first body that
  does not return ends the loop.
\<close>

fun for_each :: "('a \<Rightarrow> form \<Rightarrow> outcome) \<Rightarrow> 'a list \<Rightarrow> form \<Rightarrow> outcome" where
  "for_each body [] f = Returns f"
| "for_each body (x # xs) f =
     (case body x f of
        Returns f' \<Rightarrow> for_each body xs f'
      | Throws e f' \<Rightarrow> Throws e f'
      | Escapes k \<Rightarrow> Escapes k)"

text \<open>
  The body of the \<open>forEach\<close> of \<open>update\<close> for one entry of \<open>changes\<close>. When \<open>key in this\<close>
  holds, \<open>Object.assign\<close> stores the copy \<open>{...this[key], value}\<close> of \<open>this[key]\<close> with the
  new value: for a property that carries a field this is the field with its value
  replaced, for another member \<open>m\<close> of the subclass the object \<open>Spread m v\<close>. (For a
  member of \<open>Form\<close> itself the copy plays no role in the model, since the assignment
  throws or replaces the member.) Then the key is marked as touched and, unless
  \<open>withoutValidation\<close> is set, validated, without awaiting the result.
\<close>

definition update_key :: "bool \<Rightarrow> string \<times> jsval \<Rightarrow> form \<Rightarrow> outcome" where
  "update_key withoutValidation change f =
     (case change of (k, v) \<Rightarrow>
        if in_this f k then
          (case assign k
                  (case map_of (props f) k of
                     Some fld \<Rightarrow> Inl (fld\<lparr>val := v\<rparr>)
                   | None \<Rightarrow>
                       Inr (Spread (case map_of (others f) k of Some m \<Rightarrow> m | None \<Rightarrow> Undef) v))
                  f of
             Returns f1 \<Rightarrow>
               (let f2 = setTouched k True f1
                in Returns (if \<not> withoutValidation then begin_validateField k None f2 else f2))
           | Throws e f1 \<Rightarrow> Throws e f1
           | Escapes m \<Rightarrow> Escapes m)
        else Returns f)"

text \<open>
  \<open>update(changes, withoutValidation)\<close>; \<open>changes\<close> is the list of the entries of the
  object, in the order of \<open>Object.keys\<close>.
\<close>

definition update :: "(string \<times> jsval) list \<Rightarrow> bool \<Rightarrow> form \<Rightarrow> outcome" where
  "update changes withoutValidation f = for_each (update_key withoutValidation) changes f"

text \<open>
  \<open>this._initialValues[key]\<close> as the value that \<open>clear\<close> and \<open>reset\<close> assign: the snapshot
  of the key, or \<open>undefined\<close> when it has none.
\<close>

definition snapshot :: "form \<Rightarrow> string \<Rightarrow> FieldSource + member" where
  "snapshot f k = (case map_of (initialValues f) k of Some iv \<Rightarrow> Inl iv | None \<Rightarrow> Inr Undef)"

text \<open>
  The bodies of the loops of \<open>clear\<close> and \<open>reset\<close>. \<open>clear\<close> passes the snapshot to
  \<open>validateField\<close> as the target and does not await the result.
\<close>

definition clear_key :: "string \<Rightarrow> form \<Rightarrow> outcome" where
  "clear_key k f =
     (case assign k (snapshot f k) f of
        Returns f1 \<Rightarrow>
          (let f2 = setTouched k False f1
           in Returns (begin_validateField k (map_of (initialValues f2) k) f2))
      | Throws e f1 \<Rightarrow> Throws e f1
      | Escapes m \<Rightarrow> Escapes m)"

definition clear :: "form \<Rightarrow> outcome" where
  "clear f = for_each clear_key (keys f) f"

definition reset_key :: "string \<Rightarrow> form \<Rightarrow> outcome" where
  "reset_key k f =
     (case assign k (snapshot f k) f of
        Returns f1 \<Rightarrow>
          (let f2 = setTouched k False f1
           in Returns (setErrors k None f2))
      | Throws e f1 \<Rightarrow> Throws e f1
      | Escapes m \<Rightarrow> Escapes m)"

definition reset :: "form \<Rightarrow> outcome" where
  "reset f = for_each reset_key (keys f) f"

definition untouch :: "string \<Rightarrow> form \<Rightarrow> form" where
  "untouch k f = (if in_this f k then setTouched k False f else f)"




section \<open>A property of a form\<close>

text \<open>\<open>registered_only\<close>: every key of \<open>touched\<close> and of \<open>errors\<close> is in \<open>keys\<close>.\<close>

definition registered_only :: "form \<Rightarrow> bool" where
  "registered_only f =
     (fst ` set (touched f) \<subseteq> set (keys f) \<and> fst ` set (errors f) \<subseteq> set (keys f))"

section \<open>Example rules, fields and forms\<close>

text \<open>
  A pattern rule that accepts the strings starting with \<open>Pewww\<close> and a function rule that
  accepts the strings of fewer than eight characters, after the rules of \<open>index.test.ts\<close>.
\<close>

definition pewww_prefix :: rule where
  "pewww_prefix = RegExp (\<lambda>v. case v of JStr s \<Rightarrow> take 5 s = ''Pewww'' | _ \<Rightarrow> False)"

definition shorter_than_8 :: rule where
  "shorter_than_8 =
     Func (\<lambda>v. (case v of JStr s \<Rightarrow> length s < 8 | _ \<Rightarrow> False, Some ''maxLength error''))"

definition name_field :: "jsval \<Rightarrow> FieldSource" where
  "name_field v =
     \<lparr>key = ''name'', label = ''Name'', val = v, isRequired = True,
      requiredMessage = Some ''Required'',
      validation = [pewww_prefix, shorter_than_8, pewww_prefix]\<rparr>"

text \<open>
  The form \<open>FooForm\<close> of \<open>index.test.ts\<close>: a required field \<open>foo\<close> with the empty string
  as value and one rule, validated at registration, and a required field \<open>bar\<close> without
  value, with a message of its own, not validated at registration. \<open>declare_field\<close> is the
  statement \<open>this.name = this.generateField(options, w)\<close> of its constructor.
\<close>

definition shorter_than_5 :: rule where
  "shorter_than_5 =
     Func (\<lambda>v. (case v of JStr s \<Rightarrow> length s < 5 | _ \<Rightarrow> False, Some ''maxLength error''))"

definition foo_options :: options where
  "foo_options =
     \<lparr>opt_key = Some ''foo'', opt_label = None, opt_value = JStr [],
      opt_isRequired = Some True, opt_requiredMessage = None,
      opt_validation = Some [shorter_than_5]\<rparr>"

definition bar_options :: options where
  "bar_options =
     \<lparr>opt_key = Some ''bar'', opt_label = None, opt_value = JUndefined,
      opt_isRequired = Some True, opt_requiredMessage = Some ''Required'',
      opt_validation = None\<rparr>"

definition declare_field :: "string \<Rightarrow> options \<Rightarrow> bool \<Rightarrow> form \<Rightarrow> outcome" where
  "declare_field name options w f =
     (case generateField options w f of
        (Inl e, f') \<Rightarrow> Throws e f'
      | (Inr fld, f') \<Rightarrow> assign name (Inl fld) f')"

definition fooForm :: form where
  "fooForm =
     the (final (declare_field ''bar'' bar_options True
       (the (final (declare_field ''foo'' foo_options False (new_form ''id''))))))"

definition foo_field :: "jsval \<Rightarrow> FieldSource" where
  "foo_field v =
     \<lparr>key = ''foo'', label = [], val = v, isRequired = True, requiredMessage = None,
      validation = [shorter_than_5]\<rparr>"

definition bar_field :: "jsval \<Rightarrow> FieldSource" where
  "bar_field v =
     \<lparr>key = ''bar'', label = [], val = v, isRequired = True,
      requiredMessage = Some ''Required'', validation = []\<rparr>"

text \<open>
  A required field whose \<open>requiredMessage\<close> is the empty string and whose only rule is a
  function that rejects every value with the message \<open>m\<close>.
\<close>

definition quiet_field :: "string option \<Rightarrow> jsval \<Rightarrow> FieldSource" where
  "quiet_field m v =
     \<lparr>key = ''quiet'', label = [], val = v, isRequired = True, requiredMessage = Some [],
      validation = [Func (\<lambda>v. (False, m))]\<rparr>"



text \<open>
  A subclass of \<open>FooForm\<close> with the further members of the class \<open>PersonForm\<close> of the
  README: the array \<open>favoriteBooks\<close> and the method \<open>clearBooks\<close>.
\<close>

definition shelfForm :: form where
  "shelfForm = fooForm\<lparr>others := [(''favoriteBooks'', Other), (''clearBooks'', Method)]\<rparr>"

text \<open>
  A form with the field \<open>name\<close> of the README, whose initial value \<open>Pewww\<close> passes the
  required check and the rules, so that every validation of the field calls its rules:
  the form once the validation of the registration has completed, and the form after the
  user has typed \<open>Pew\<close>, which the first rule rejects, and that validation has completed.
\<close>

definition name_options :: options where
  "name_options =
     \<lparr>opt_key = Some ''name'', opt_label = Some ''Name'', opt_value = JStr ''Pewww'',
      opt_isRequired = Some True, opt_requiredMessage = Some ''Required'',
      opt_validation = Some [pewww_prefix, shorter_than_8, pewww_prefix]\<rparr>"

definition nameForm :: form where
  "nameForm =
     complete 0 (the (final (declare_field ''name'' name_options False (new_form ''id''))))"

definition renamedForm :: form where
  "renamedForm = complete 0 (the (final (update [(''name'', JStr ''Pew'')] False nameForm)))"

section \<open>The order of validation\<close>


lemma run_rules_first_fail:
  "i < length vs \<Longrightarrow> \<forall>j < i. rule_passes (vs ! j) x \<Longrightarrow> \<not> rule_passes (vs ! i) x
   \<Longrightarrow> run_rules vs x = (Some (rule_message (vs ! i) x), take (Suc i) vs)"
proof (induction vs arbitrary: i)
  case Nil
  then show ?case by simp
next
  case (Cons v vs)
  show ?case
  proof (cases i)
    case 0
    with Cons.prems show ?thesis by (cases v) simp_all
  next
    case (Suc n)
    with Cons.prems have n: "n < length vs" and fail: "\<not> rule_passes (vs ! n) x"
      by simp_all
    from Cons.prems Suc have head: "rule_passes v x" by auto
    from Cons.prems Suc have before: "\<forall>j < n. rule_passes (vs ! j) x" by auto
    from Cons.IH [OF n before fail] head Suc show ?thesis by (cases v) simp_all
  qed
qed

lemma check_target_required:
  "isRequired t \<Longrightarrow> isEmpty (val t) \<Longrightarrow>
   check_target t =
     (Some (case requiredMessage t of None \<Rightarrow> VALUE_NOT_REQUIRED | Some m \<Rightarrow> m), [])"
  by (simp add: check_target_def nullish_or_def)

lemma check_target_rules:
  "\<not> (isRequired t \<and> isEmpty (val t)) \<Longrightarrow> check_target t = run_rules (validation t) (val t)"
  by (cases "validation t") (auto simp add: check_target_def)

lemma validateField_given:
  "validateField k (Some t) f =
     (None, f\<lparr>errors := AList.update k (fst (check_target t)) (errors f)\<rparr>)"
  by (simp add: validateField_def)




lemma fooForm_eq:
  "fooForm =
     \<lparr>initialValues = [(''foo'', foo_field (JStr [])), (''bar'', bar_field (JStr []))],
      touched = [(''foo'', False), (''bar'', False)],
      errors = [(''foo'', Some ''Value should be required.''), (''bar'', None)],
      uniqueId = ''id'', keys = [''foo'', ''bar''],
      props = [(''foo'', foo_field (JStr [])), (''bar'', bar_field (JStr []))],
      others = [], inFlight = []\<rparr>"
  by (simp add: fooForm_def declare_field_def generateField_def foo_options_def
      bar_options_def new_form_def addKey_def setTouched_def setErrors_def assign_def
      begin_validateField_def check_target_def nullish_or_def nullish_def
      FIELD_DEFAULT_VALUES_def foo_field_def bar_field_def VALUE_NOT_REQUIRED_def Let_def
      member_names_def plain_getters_def computed_getters_def)

section \<open>The required check and the messages\<close>

lemma map_of_update_same: "map_of (AList.update k v al) k = Some v"
  by (simp add: update_conv')

lemma map_of_update_other: "k' \<noteq> k \<Longrightarrow> map_of (AList.update k v al) k' = map_of al k'"
  by (simp add: update_conv')

lemma isValid_iff: "isValid f \<longleftrightarrow> (\<forall>k e. (k, e) \<in> set (errors f) \<longrightarrow> e = None)"
  by (auto simp add: isValid_def list_all_iff)

lemma not_isValid: "map_of (errors f) k = Some (Some m) \<Longrightarrow> \<not> isValid f"
  by (auto simp add: isValid_iff dest: map_of_SomeD)

text \<open>
  The required check of a required field fails on the values of which \<open>isEmpty\<close> holds
  (lemma \<open>check_target_required\<close>): the nullish values, the empty string, the empty
  containers, and all numbers and booleans.
\<close>

lemma isEmpty_iff:
  "isEmpty v \<longleftrightarrow>
     v = JUndefined \<or> v = JNull \<or> v = JStr [] \<or> v = JArr [] \<or> v = JObj []
     \<or> (\<exists>b. v = JBool b) \<or> (\<exists>n. v = JNum n)"
  by (cases v) auto

text \<open>
  Claim C2, evaluated on the code. The claim holds that the required check of a required
  field fails for \<open>undefined\<close>, \<open>null\<close>, the empty string and an empty container only, and
  not for a number or a boolean. \<open>validateField\<close> asks \<open>isEmpty\<close>, which is true of
  every number and boolean: the required fields with the values \<open>5\<close> and \<open>true\<close> get the
  required message.
\<close>

theorem required_check_number_boolean:
  "fst (check_target \<lparr>key = ''age'', label = [], val = JNum 5, isRequired = True,
      requiredMessage = None, validation = []\<rparr>) = Some ''Value should be required.''
   \<and> fst (check_target \<lparr>key = ''agree'', label = [], val = JBool True, isRequired = True,
      requiredMessage = None, validation = []\<rparr>) = Some ''Value should be required.''"
  by (simp add: check_target_def nullish_or_def VALUE_NOT_REQUIRED_def)

text \<open>
  Claim C10. When the first rule that fails is a function, the error is the message it
  returns, unless that message is \<open>undefined\<close> or the empty string, in which case it is the
  generic message \<open>Value is not valid.\<close> When the required check fails, the error is
  \<open>requiredMessage\<close> unless that is \<open>undefined\<close>, in which case it is the generic required
  message; an empty \<open>requiredMessage\<close> is stored as it is, and since the empty string is
  not \<open>undefined\<close>, \<open>isValid\<close> is false afterwards.
\<close>

theorem message_defaults:
  "(\<not> (isRequired t \<and> isEmpty (val t)) \<and> i < length (validation t)
      \<and> (\<forall>j < i. rule_passes (validation t ! j) (val t))
      \<and> validation t ! i = Func g \<and> \<not> fst (g (val t)) \<longrightarrow>
      fst (check_target t) =
        Some (case snd (g (val t)) of None \<Rightarrow> VALUE_NOT_VALID
              | Some m \<Rightarrow> if m = [] then VALUE_NOT_VALID else m))
   \<and> (isRequired t \<and> isEmpty (val t) \<longrightarrow>
        fst (check_target t) =
          Some (case requiredMessage t of None \<Rightarrow> VALUE_NOT_REQUIRED | Some m \<Rightarrow> m))
   \<and> (isRequired t \<and> isEmpty (val t) \<and> requiredMessage t = Some [] \<longrightarrow>
        map_of (errors (snd (validateField k (Some t) f))) k = Some (Some [])
        \<and> \<not> isValid (snd (validateField k (Some t) f)))"
proof (intro conjI impI)
  assume a: "\<not> (isRequired t \<and> isEmpty (val t)) \<and> i < length (validation t)
      \<and> (\<forall>j < i. rule_passes (validation t ! j) (val t))
      \<and> validation t ! i = Func g \<and> \<not> fst (g (val t))"
  then have "run_rules (validation t) (val t) =
      (Some (rule_message (validation t ! i) (val t)), take (Suc i) (validation t))"
    by (intro run_rules_first_fail) simp_all
  with a show "fst (check_target t) =
        Some (case snd (g (val t)) of None \<Rightarrow> VALUE_NOT_VALID
              | Some m \<Rightarrow> if m = [] then VALUE_NOT_VALID else m)"
    by (simp add: check_target_rules falsy_or_def)
next
  assume "isRequired t \<and> isEmpty (val t)"
  then show "fst (check_target t) =
          Some (case requiredMessage t of None \<Rightarrow> VALUE_NOT_REQUIRED | Some m \<Rightarrow> m)"
    by (simp add: check_target_required)
next
  assume a: "isRequired t \<and> isEmpty (val t) \<and> requiredMessage t = Some []"
  then have "fst (check_target t) = Some []"
    by (simp add: check_target_required)
  then show e: "map_of (errors (snd (validateField k (Some t) f))) k = Some (Some [])"
    by (simp add: validateField_given map_of_update_same)
  then show "\<not> isValid (snd (validateField k (Some t) f))"
    by (rule not_isValid)
qed

theorem message_defaults_witness:
  "fst (check_target (quiet_field (Some []) (JStr ''a''))) = Some ''Value is not valid.''
   \<and> fst (check_target (quiet_field None (JStr ''a''))) = Some ''Value is not valid.''
   \<and> fst (check_target (quiet_field (Some ''no'') (JStr ''a''))) = Some ''no''
   \<and> fst (check_target (quiet_field None (JStr []))) = Some []
   \<and> fst (check_target (bar_field (JStr []))) = Some ''Required''
   \<and> fst (check_target (foo_field (JStr []))) = Some ''Value should be required.''
   \<and> errors (snd (validateField ''quiet'' (Some (quiet_field None (JStr []))) (new_form ''id'')))
       = [(''quiet'', Some [])]
   \<and> \<not> isValid (snd (validateField ''quiet'' (Some (quiet_field None (JStr []))) (new_form ''id'')))"
proof -
  have a: "fst (check_target (quiet_field (Some []) (JStr ''a''))) = Some ''Value is not valid.''"
    using message_defaults [where t = "quiet_field (Some []) (JStr ''a'')" and i = 0
        and g = "\<lambda>v. (False, Some [])"]
    by (simp add: quiet_field_def VALUE_NOT_VALID_def)
  have b: "fst (check_target (quiet_field None (JStr ''a''))) = Some ''Value is not valid.''"
    using message_defaults [where t = "quiet_field None (JStr ''a'')" and i = 0
        and g = "\<lambda>v. (False, None)"]
    by (simp add: quiet_field_def VALUE_NOT_VALID_def)
  have c: "fst (check_target (quiet_field (Some ''no'') (JStr ''a''))) = Some ''no''"
    using message_defaults [where t = "quiet_field (Some ''no'') (JStr ''a'')" and i = 0
        and g = "\<lambda>v. (False, Some ''no'')"]
    by (simp add: quiet_field_def)
  have d: "fst (check_target (quiet_field None (JStr []))) = Some []"
    using message_defaults [where t = "quiet_field None (JStr [])"]
    by (simp add: quiet_field_def)
  have e: "fst (check_target (bar_field (JStr []))) = Some ''Required''"
    using message_defaults [where t = "bar_field (JStr [])"]
    by (simp add: bar_field_def)
  have g: "fst (check_target (foo_field (JStr []))) = Some ''Value should be required.''"
    using message_defaults [where t = "foo_field (JStr [])"]
    by (simp add: foo_field_def VALUE_NOT_REQUIRED_def)
  have h: "map_of (errors (snd (validateField ''quiet'' (Some (quiet_field None (JStr [])))
        (new_form ''id'')))) ''quiet'' = Some (Some [])
      \<and> \<not> isValid (snd (validateField ''quiet'' (Some (quiet_field None (JStr [])))
        (new_form ''id'')))"
    using message_defaults [where t = "quiet_field None (JStr [])" and k = "''quiet''"
        and f = "new_form ''id''"]
    by (simp add: quiet_field_def)
  have i: "errors (snd (validateField ''quiet'' (Some (quiet_field None (JStr [])))
        (new_form ''id''))) = [(''quiet'', Some [])]"
    using d by (simp add: validateField_given new_form_def)
  from a b c d e g h i show ?thesis by simp
qed

section \<open>The getter \<open>isValid\<close>\<close>

text \<open>
  Claim C6. \<open>isValid\<close> is true exactly when every entry of \<open>errors\<close> is \<open>undefined\<close>. It
  is a function of \<open>errors\<close> alone: two forms with the same errors have the same
  \<open>isValid\<close>, whatever their fields hold, so reading it validates nothing; the getter has
  no assignment and returns the truth value only.
\<close>

theorem isValid_reads_errors:
  "(isValid f \<longleftrightarrow> (\<forall>k e. (k, e) \<in> set (errors f) \<longrightarrow> e = None))
   \<and> (errors g = errors f \<longrightarrow> isValid g = isValid f)"
  by (auto simp add: isValid_iff)

theorem isValid_reads_errors_witness:
  "isValid (the (final (reset fooForm))) \<and> \<not> isValid fooForm
   \<and> fst (check_target (foo_field (JStr []))) = Some ''Value should be required.''
   \<and> map_of (props (the (final (reset fooForm)))) ''foo'' = Some (foo_field (JStr []))
   \<and> isValid (fooForm\<lparr>errors := errors (the (final (reset fooForm)))\<rparr>)"
proof -
  have r: "errors (the (final (reset fooForm))) = [(''foo'', None), (''bar'', None)]"
    "props (the (final (reset fooForm))) =
       [(''foo'', foo_field (JStr [])), (''bar'', bar_field (JStr []))]"
    by (simp_all add: fooForm_eq reset_def reset_key_def assign_def snapshot_def
        setTouched_def setErrors_def Let_def member_names_def plain_getters_def
        computed_getters_def)
  have a: "isValid (the (final (reset fooForm)))"
    using isValid_reads_errors [of "the (final (reset fooForm))"] r by simp
  have b: "\<not> isValid fooForm"
    using isValid_reads_errors [of fooForm] by (simp add: fooForm_eq)
  have c: "fst (check_target (foo_field (JStr []))) = Some ''Value should be required.''"
    by (simp add: check_target_def foo_field_def nullish_or_def VALUE_NOT_REQUIRED_def)
  have d: "isValid (fooForm\<lparr>errors := errors (the (final (reset fooForm)))\<rparr>)"
    using isValid_reads_errors [of "the (final (reset fooForm))"
        "fooForm\<lparr>errors := errors (the (final (reset fooForm)))\<rparr>"] a
    by simp
  from a b c d r show ?thesis by simp
qed

section \<open>Registration of a field\<close>

text \<open>
  Claim C8. \<open>generateField\<close> throws the error with the message \<open>Key should exists.\<close>
  exactly when the key is absent or the empty string, whatever the other options are;
  with any other key it returns a field. When it throws, the form is as it was before the
  call.
\<close>

theorem generateField_throws:
  "(fst (generateField options w f) = Inl (Error KEY_NOT_EXISTS)
      \<longleftrightarrow> opt_key options = None \<or> opt_key options = Some [])
   \<and> ((\<exists>fld. fst (generateField options w f) = Inr fld)
      \<longleftrightarrow> \<not> (opt_key options = None \<or> opt_key options = Some []))
   \<and> (opt_key options = None \<or> opt_key options = Some [] \<longrightarrow>
        snd (generateField options w f) = f)"
  by (cases "opt_key options") (auto simp add: generateField_def Let_def)

theorem generateField_throws_witness:
  "generateField (foo_options\<lparr>opt_key := None\<rparr>) False fooForm =
     (Inl (Error ''Key should exists.''), fooForm)
   \<and> generateField (foo_options\<lparr>opt_key := Some []\<rparr>) True fooForm =
     (Inl (Error ''Key should exists.''), fooForm)
   \<and> fst (generateField foo_options False (new_form ''id'')) = Inr (foo_field (JStr []))"
proof -
  have a: "generateField (foo_options\<lparr>opt_key := None\<rparr>) False fooForm =
     (Inl (Error ''Key should exists.''), fooForm)"
    using generateField_throws [of "foo_options\<lparr>opt_key := None\<rparr>" False fooForm]
    by (simp add: prod_eq_iff KEY_NOT_EXISTS_def)
  have b: "generateField (foo_options\<lparr>opt_key := Some []\<rparr>) True fooForm =
     (Inl (Error ''Key should exists.''), fooForm)"
    using generateField_throws [of "foo_options\<lparr>opt_key := Some []\<rparr>" True fooForm]
    by (simp add: prod_eq_iff KEY_NOT_EXISTS_def)
  have "\<exists>fld. fst (generateField foo_options False (new_form ''id'')) = Inr fld"
    using generateField_throws [of foo_options False "new_form ''id''"]
    by (simp add: foo_options_def)
  then have c: "fst (generateField foo_options False (new_form ''id'')) = Inr (foo_field (JStr []))"
    by (simp add: generateField_def foo_options_def foo_field_def Let_def nullish_def
        nullish_or_def FIELD_DEFAULT_VALUES_def)
  from a b c show ?thesis by simp
qed

text \<open>
  Claim C9. When \<open>generateField\<close> is given a key, the value of the field it returns, which
  is also the snapshot it stores under the key, is the empty string if \<open>options.value\<close> is
  \<open>undefined\<close> or \<open>null\<close>, and \<open>options.value\<close> itself in every other case.
\<close>

theorem generateField_value:
  "opt_key options = Some k \<Longrightarrow> k \<noteq> [] \<Longrightarrow> generateField options w f = (r, f') \<Longrightarrow>
   \<exists>fld. r = Inr fld
     \<and> val fld = (if opt_value options = JUndefined \<or> opt_value options = JNull then JStr []
                   else opt_value options)
     \<and> map_of (initialValues f') k = Some fld"
  by (auto simp add: generateField_def Let_def nullish_def begin_validateField_def
      setErrors_def setTouched_def addKey_def map_of_update_same split: list.split)

theorem generateField_value_witness:
  "fst (generateField (foo_options\<lparr>opt_value := JNull\<rparr>) True (new_form ''id'')) =
     Inr (foo_field (JStr []))
   \<and> fst (generateField (foo_options\<lparr>opt_value := JUndefined\<rparr>) True (new_form ''id'')) =
     Inr (foo_field (JStr []))
   \<and> fst (generateField (foo_options\<lparr>opt_value := JNum 0\<rparr>) True (new_form ''id'')) =
     Inr (foo_field (JNum 0))
   \<and> fst (generateField (foo_options\<lparr>opt_value := JBool False\<rparr>) True (new_form ''id'')) =
     Inr (foo_field (JBool False))
   \<and> fst (generateField (foo_options\<lparr>opt_value := JArr []\<rparr>) True (new_form ''id'')) =
     Inr (foo_field (JArr []))
   \<and> initialValues (snd (generateField (foo_options\<lparr>opt_value := JNull\<rparr>) True
       (new_form ''id''))) = [(''foo'', foo_field (JStr []))]
   \<and> initialValues (snd (generateField (foo_options\<lparr>opt_value := JNum 0\<rparr>) True
       (new_form ''id''))) = [(''foo'', foo_field (JNum 0))]"
proof -
  have ev: "generateField (foo_options\<lparr>opt_value := v\<rparr>) True (new_form ''id'') =
      (Inr (foo_field (if v = JUndefined \<or> v = JNull then JStr [] else v)),
       \<lparr>initialValues = [(''foo'', foo_field (if v = JUndefined \<or> v = JNull then JStr [] else v))],
        touched = [(''foo'', False)], errors = [(''foo'', None)], uniqueId = ''id'',
        keys = [''foo''], props = [], others = [], inFlight = []\<rparr>)" for v
    by (simp add: generateField_def foo_options_def foo_field_def Let_def nullish_def
        nullish_or_def FIELD_DEFAULT_VALUES_def new_form_def addKey_def setTouched_def
        setErrors_def)
  have k: "opt_key (foo_options\<lparr>opt_value := JNull\<rparr>) = Some ''foo''"
    by (simp add: foo_options_def)
  have n: "''foo'' \<noteq> []"
    by simp
  note w = generateField_value [OF k n ev [of JNull, simplified]]
  from w show ?thesis by (simp add: ev)
qed


section \<open>Assignments and loops\<close>














section \<open>What the bodies of the loops do\<close>










section \<open>The loops of \<open>reset\<close> and \<open>clear\<close>\<close>












section \<open>The example forms\<close>

lemmas form_defs =
  declare_field_def generateField_def new_form_def addKey_def setTouched_def setErrors_def
  assign_def begin_validateField_def complete_def update_def update_key_def in_this_def
  reset_def reset_key_def clear_def clear_key_def snapshot_def untouch_def
  member_names_def plain_getters_def computed_getters_def nullish_def nullish_or_def
  FIELD_DEFAULT_VALUES_def Let_def



lemma check_name_Pewww:
  "check_target (name_field (JStr ''Pewww'')) =
     (None, [pewww_prefix, shorter_than_8, pewww_prefix])"
  by (simp add: check_target_def name_field_def pewww_prefix_def shorter_than_8_def)

lemma check_name_Pew:
  "check_target (name_field (JStr ''Pew'')) = (Some ''Value is not valid.'', [pewww_prefix])"
  by (simp add: check_target_def name_field_def pewww_prefix_def VALUE_NOT_VALID_def)



lemma name_field_val: "(name_field v)\<lparr>val := v'\<rparr> = name_field v'"
  by (simp add: name_field_def)



lemma name_options_field:
  "\<lparr>key = ''name'', label = ''Name'', val = JStr ''Pewww'', isRequired = True,
     requiredMessage = Some ''Required'',
     validation = [pewww_prefix, shorter_than_8, pewww_prefix]\<rparr> = name_field (JStr ''Pewww'')"
  by (simp add: name_field_def)

lemma nameForm_eq:
  "nameForm =
     \<lparr>initialValues = [(''name'', name_field (JStr ''Pewww''))],
      touched = [(''name'', False)], errors = [(''name'', None)],
      uniqueId = ''id'', keys = [''name''],
      props = [(''name'', name_field (JStr ''Pewww''))],
      others = [], inFlight = []\<rparr>"
  by (simp add: nameForm_def name_options_def declare_field_def generateField_def
      new_form_def addKey_def setTouched_def setErrors_def nullish_def
      FIELD_DEFAULT_VALUES_def Let_def name_options_field begin_validateField_def
      check_name_Pewww assign_def member_names_def plain_getters_def computed_getters_def
      complete_def)

lemma renamedForm_eq:
  "renamedForm =
     \<lparr>initialValues = [(''name'', name_field (JStr ''Pewww''))],
      touched = [(''name'', True)], errors = [(''name'', Some ''Value is not valid.'')],
      uniqueId = ''id'', keys = [''name''],
      props = [(''name'', name_field (JStr ''Pew''))],
      others = [], inFlight = []\<rparr>"
  by (simp add: renamedForm_def nameForm_eq form_defs name_field_val check_name_Pew)


lemma reset_renamedForm:
  "reset renamedForm = Returns
     \<lparr>initialValues = [(''name'', name_field (JStr ''Pewww''))],
      touched = [(''name'', False)], errors = [(''name'', None)],
      uniqueId = ''id'', keys = [''name''],
      props = [(''name'', name_field (JStr ''Pewww''))],
      others = [], inFlight = []\<rparr>"
  by (simp add: renamedForm_eq form_defs)


lemma shelfForm_eq:
  "shelfForm =
     \<lparr>initialValues = [(''foo'', foo_field (JStr [])), (''bar'', bar_field (JStr []))],
      touched = [(''foo'', False), (''bar'', False)],
      errors = [(''foo'', Some ''Value should be required.''), (''bar'', None)],
      uniqueId = ''id'', keys = [''foo'', ''bar''],
      props = [(''foo'', foo_field (JStr [])), (''bar'', bar_field (JStr []))],
      others = [(''favoriteBooks'', Other), (''clearBooks'', Method)], inFlight = []\<rparr>"
  by (simp add: shelfForm_def fooForm_eq)

lemma update_shelfForm:
  "update [(''favoriteBooks'', JNum 1)] False shelfForm = Returns
     \<lparr>initialValues = [(''foo'', foo_field (JStr [])), (''bar'', bar_field (JStr []))],
      touched = [(''foo'', False), (''bar'', False), (''favoriteBooks'', True)],
      errors = [(''foo'', Some ''Value should be required.''), (''bar'', None),
                (''favoriteBooks'', None)],
      uniqueId = ''id'', keys = [''foo'', ''bar''],
      props = [(''foo'', foo_field (JStr [])), (''bar'', bar_field (JStr []))],
      others = [(''favoriteBooks'', Spread Other (JNum 1)), (''clearBooks'', Method)],
      inFlight = []\<rparr>"
  by (simp add: shelfForm_eq form_defs)

lemma update_id_fooForm:
  "update [(''__id'', JStr ''x'')] False fooForm = Throws TypeError fooForm"
  by (simp add: update_def update_key_def in_this_def assign_def member_names_def
      plain_getters_def)

section \<open>Keys that are not registered\<close>

text \<open>
  Claim C3, evaluated on the code. The claim holds that \<open>update\<close> is a silent no-op for
  every change key that is not a registered field key. The guard of \<open>update\<close> is
  \<open>key in this\<close> (line 111), which also holds for the members of the form object that are
  not fields. \<open>__id\<close> is not a registered key of \<open>FooForm\<close>, but it is a getter of the
  class: the guard passes and \<open>Object.assign\<close> throws a \<open>TypeError\<close>. \<open>favoriteBooks\<close>
  is not a registered key of the form with the members of the README's \<open>PersonForm\<close>: the
  guard passes, the array is replaced by the object \<open>{...this.favoriteBooks, value: 1}\<close>,
  and the key is written into \<open>touched\<close> and \<open>errors\<close>.
\<close>

theorem update_unregistered_member:
  "''__id'' \<notin> set (keys fooForm)
   \<and> update [(''__id'', JStr ''x'')] False fooForm = Throws TypeError fooForm
   \<and> ''favoriteBooks'' \<notin> set (keys shelfForm)
   \<and> map_of (others shelfForm) ''favoriteBooks'' = Some Other
   \<and> map_of (touched shelfForm) ''favoriteBooks'' = None
   \<and> map_of (errors shelfForm) ''favoriteBooks'' = None
   \<and> update [(''favoriteBooks'', JNum 1)] False shelfForm = Returns
       \<lparr>initialValues = [(''foo'', foo_field (JStr [])), (''bar'', bar_field (JStr []))],
        touched = [(''foo'', False), (''bar'', False), (''favoriteBooks'', True)],
        errors = [(''foo'', Some ''Value should be required.''), (''bar'', None),
                  (''favoriteBooks'', None)],
        uniqueId = ''id'', keys = [''foo'', ''bar''],
        props = [(''foo'', foo_field (JStr [])), (''bar'', bar_field (JStr []))],
        others = [(''favoriteBooks'', Spread Other (JNum 1)), (''clearBooks'', Method)],
        inFlight = []\<rparr>"
  by (simp add: update_id_fooForm update_shelfForm) (simp add: shelfForm_eq fooForm_eq)

text \<open>
  Claim C5, evaluated on the code. The claim holds that no operation introduces a key
  that is not registered into \<open>touched\<close> or \<open>errors\<close>. The guard of \<open>untouch\<close> is
  \<open>key in this\<close> (line 152), where \<open>untouchAll\<close>, \<open>reset\<close>, \<open>clear\<close> and \<open>validate\<close> go
  through \<open>this.keys\<close>: \<open>keys\<close> is a property of every form, so \<open>untouch('keys')\<close> passes
  the guard and writes the key \<open>keys\<close>, which is not registered, into \<open>touched\<close>.
  \<open>update\<close> has the same guard and writes the key \<open>favoriteBooks\<close>, which is not
  registered, into \<open>touched\<close> and \<open>errors\<close>.
\<close>

theorem untouch_unregistered_member:
  "registered_only fooForm \<and> ''keys'' \<notin> set (keys fooForm)
   \<and> touched (untouch ''keys'' fooForm) = [(''foo'', False), (''bar'', False), (''keys'', False)]
   \<and> \<not> registered_only (untouch ''keys'' fooForm)
   \<and> registered_only shelfForm \<and> ''favoriteBooks'' \<notin> set (keys shelfForm)
   \<and> touched (untouch ''favoriteBooks'' shelfForm) =
       [(''foo'', False), (''bar'', False), (''favoriteBooks'', False)]
   \<and> touched (the (final (update [(''favoriteBooks'', JNum 1)] False shelfForm))) =
       [(''foo'', False), (''bar'', False), (''favoriteBooks'', True)]
   \<and> errors (the (final (update [(''favoriteBooks'', JNum 1)] False shelfForm))) =
       [(''foo'', Some ''Value should be required.''), (''bar'', None), (''favoriteBooks'', None)]
   \<and> \<not> registered_only (the (final (update [(''favoriteBooks'', JNum 1)] False shelfForm)))"
  by (simp add: update_shelfForm registered_only_def)
    (simp add: shelfForm_eq fooForm_eq untouch_def in_this_def member_names_def setTouched_def)

section \<open>\<open>reset\<close> and \<open>clear\<close>\<close>






section \<open>The initial snapshots\<close>













end
